theory Spec2Isabelle
  imports Main "HOL-Library.Sublist"
begin

section \<open>The Cinder storage backend of glance_store\<close>

text \<open>
  A shallow embedding of \<^verbatim>\<open>glance_store/_drivers/cinder.py\<close>: the class
  \<^verbatim>\<open>StoreLocation\<close> (a Cinder URI) and the class \<^verbatim>\<open>Store\<close> (the adapter that asks
  the volume service for the size of a volume). Methods take the object as an explicit
  argument; a method that assigns attributes returns the updated object. Every
  \<^verbatim>\<open>raise\<close> is an \<open>Inl\<close> of a sum, and every call of the logger is an entry of a list
  that the method returns beside its result.
\<close>

subsection \<open>Exceptions and log records\<close>

text \<open>
  The values a \<^verbatim>\<open>raise\<close> can carry here. All are instances of subclasses of Python's
  \<^verbatim>\<open>Exception\<close>, the class the last handler of \<^verbatim>\<open>get_size\<close> names. The first two
  belong to the client libraries. The classes of \<^verbatim>\<open>glance_store.exceptions\<close> are
  modelled from the spec (see below). \<open>AttributeError\<close> carries the name of the missing
  attribute; \<open>ValueError\<close> is what unpacking a sequence of the wrong length raises (its
  message differs between interpreter versions and is not modelled); \<open>OtherError\<close>
  stands for an instance of any other subclass of \<^verbatim>\<open>Exception\<close>.
\<close>

text \<open>
  Modelled from the spec: the module \<^verbatim>\<open>glance_store/exceptions.py\<close> is not among the
  sources. The spec's taxonomy has three caller-facing kinds: a malformed location
  (\<^verbatim>\<open>BadStoreUri\<close> in the code, with its message), \<^verbatim>\<open>BadStoreConfiguration\<close> (with the
  store's name and a reason) and \<^verbatim>\<open>NotFound\<close> (with a message). They are classes of this
  package, so none of them is a subclass of a class of cinderclient or keystoneclient.
\<close>

datatype exn =
    CinderNotFound string
  | EndpointNotFound string
  | BadStoreUri string
  | BadStoreConfiguration string string
  | NotFound string
  | AttributeError string
  | ValueError
  | OtherError string

type_synonym 'a result = "exn + 'a"

text \<open>
  A record of the logger: \<^verbatim>\<open>LOG.info(msg)\<close>, \<^verbatim>\<open>LOG.error(msg)\<close>, and
  \<^verbatim>\<open>LOG.exception(fmt % e)\<close>, kept as the format's text before \<^verbatim>\<open>%s\<close> and the
  exception that is interpolated (the text of \<^verbatim>\<open>str(e)\<close> is the exception class's own
  business).
\<close>

datatype log_record =
    LogInfo string
  | LogError string
  | LogException string exn

subsection \<open>StoreLocation\<close>

text \<open>
  The attributes of a \<^verbatim>\<open>StoreLocation\<close>: the mapping \<^verbatim>\<open>specs\<close> it was built from, and
  the two attributes that \<^verbatim>\<open>process_specs\<close> and \<^verbatim>\<open>parse_uri\<close> assign. \<^verbatim>\<open>volume_id\<close>
  is \<open>None\<close> where Python holds \<^verbatim>\<open>None\<close> (the value of \<^verbatim>\<open>dict.get\<close> on a missing key).
\<close>

record store_location =
  specs :: "string \<rightharpoonup> string"
  scheme :: string
  volume_id :: "string option"

definition process_specs :: "store_location \<Rightarrow> store_location" where
  "process_specs self =
     self\<lparr>scheme := (case specs self ''scheme'' of None \<Rightarrow> ''cinder'' | Some s \<Rightarrow> s),
          volume_id := specs self ''volume_id''\<rparr>"

text \<open>Python's \<^verbatim>\<open>'%s' % v\<close> for a value that is a string or \<^verbatim>\<open>None\<close>.\<close>

definition py_str :: "string option \<Rightarrow> string" where
  "py_str v = (case v of None \<Rightarrow> ''None'' | Some s \<Rightarrow> s)"

definition get_uri :: "store_location \<Rightarrow> string" where
  "get_uri self = ''cinder://'' @ py_str (volume_id self)"

text \<open>
  Modelled from the spec: \<^verbatim>\<open>is_uuid_like\<close> of \<^verbatim>\<open>glance_store/common/utils.py\<close> is not among
  the sources. The spec: the identifier ``must match a UUID-like pattern (hexadecimal
  groups separated by hyphens, the standard 8-4-4-4-12 shape, case-insensitive)''.
  Every character is mapped to its class, and the classes are compared with the shape.
\<close>

definition is_hex_digit :: "char \<Rightarrow> bool" where
  "is_hex_digit c \<longleftrightarrow> c \<in> set ''0123456789abcdefABCDEF''"

definition uuid_class :: "char \<Rightarrow> char" where
  "uuid_class c =
     (if is_hex_digit c then CHR ''x'' else if c = CHR ''-'' then CHR ''-'' else CHR ''?'')"

definition is_uuid_like :: "string \<Rightarrow> bool" where
  "is_uuid_like val \<longleftrightarrow> map uuid_class val = ''xxxxxxxx-xxxx-xxxx-xxxx-xxxxxxxxxxxx''"

text \<open>
  \<^verbatim>\<open>parse_uri\<close> returns the object after its assignments, the log records, and
  \<open>Inr ()\<close> or the exception. \<^verbatim>\<open>uri.startswith(p)\<close> is \<open>prefix p uri\<close>, \<^verbatim>\<open>uri[9:]\<close> is
  \<open>drop 9 uri\<close>, and \<^verbatim>\<open>_\<close> (the translation hook) returns its argument.
\<close>

definition parse_uri ::
  "store_location \<Rightarrow> string \<Rightarrow> store_location \<times> log_record list \<times> unit result" where
  "parse_uri self uri =
     (if \<not> prefix ''cinder://'' uri then
        (let reason = ''URI must start with '' @ [CHR 0x27] @ ''cinder://'' @ [CHR 0x27]
         in (self, [LogInfo reason], Inl (BadStoreUri reason)))
      else
        (let self' = self\<lparr>scheme := ''cinder'', volume_id := Some (drop 9 uri)\<rparr>
         in if \<not> is_uuid_like (the (volume_id self')) then
              (let reason = ''URI contains invalid volume ID''
               in (self', [LogInfo reason], Inl (BadStoreUri reason)))
            else (self', [], Inr ())))"

subsection \<open>Configuration, request context and the volume service\<close>

text \<open>
  The options of the group \<^verbatim>\<open>glance_store\<close> that the driver reads (\<^verbatim>\<open>_CINDER_OPTS\<close>).
  A string option without a value is \<open>None\<close>.
\<close>

record glance_store_conf =
  cinder_catalog_info :: string
  cinder_endpoint_template :: "string option"
  os_region_name :: "string option"
  cinder_http_retries :: int

text \<open>The defaults that \<^verbatim>\<open>_CINDER_OPTS\<close> declares.\<close>

definition default_conf :: glance_store_conf where
  "default_conf =
     \<lparr>cinder_catalog_info = ''volume:cinder:publicURL'',
      cinder_endpoint_template = None,
      os_region_name = None,
      cinder_http_retries = 3\<rparr>"

text \<open>
  Objects of the libraries, never looked into by the driver: a keystone session and the
  authentication plugin of a request, each named by a label.
\<close>

datatype session = Session string

datatype auth_plugin = AuthPlugin string

text \<open>
  The request context, as far as the driver uses it: the value of \<^verbatim>\<open>to_dict()\<close> and the
  value of \<^verbatim>\<open>get_auth_plugin()\<close>. A call without a context passes Python's \<^verbatim>\<open>None\<close>,
  which is \<open>None\<close> of \<open>request_context option\<close>.
\<close>

record request_context =
  to_dict :: "(string \<times> string) list"
  get_auth_plugin :: auth_plugin

text \<open>
  A client of the volume service is what \<^verbatim>\<open>cinderclient.Client\<close> was called with: the
  keyword arguments of the call, in the order of the source.
\<close>

datatype pyval =
    PSession session
  | PAuth auth_plugin
  | PStr "string option"
  | PInt int

datatype client = Client "(string \<times> pyval) list"

text \<open>A volume as the service reports it; \<^verbatim>\<open>size\<close> is in gigabytes.\<close>

record volume =
  volume_size :: int

text \<open>
  What the driver does not own is a parameter of the model:
  \<^item> \<open>base_Store_init\<close>: \<^verbatim>\<open>super(Store, self).__init__(conf)\<close>, the constructor of the
    base class \<^verbatim>\<open>glance_store.driver.Store\<close>, which is not among the sources. It is
    handed the class attribute \<^verbatim>\<open>OPTIONS\<close>, that is \<^verbatim>\<open>_CINDER_OPTS\<close>, whose last entry
    is not an option but the whole list of session options (\<^verbatim>\<open>extend\<close> is called on a
    list that holds that list); what the base constructor does with such an entry is
    its own business, so it may raise for every configuration;
  \<^item> \<open>load_from_conf_options\<close>: \<^verbatim>\<open>session.Session.load_from_conf_options(conf, 'glance_store')\<close>;
  \<^item> \<open>percent\<close>: Python's \<^verbatim>\<open>template % mapping\<close> on a string and a dictionary;
  \<^item> \<open>volumes_get\<close>: building the client from its arguments and calling
    \<^verbatim>\<open>.volumes.get(volume_id)\<close> on it, the one remote call of the driver.
  Each returns its value or raises.
\<close>

record env =
  base_Store_init :: "glance_store_conf \<Rightarrow> unit result"
  load_from_conf_options :: "glance_store_conf \<Rightarrow> session result"
  percent :: "string \<Rightarrow> (string \<times> string) list \<Rightarrow> string result"
  volumes_get :: "client \<Rightarrow> string option \<Rightarrow> volume result"

subsection \<open>Store\<close>

text \<open>
  Modelled from the spec: the base class \<^verbatim>\<open>glance_store.driver.Store\<close> is not among the
  sources. Its constructor keeps the configuration (the spec: ``configuration read at
  construction, used per-request''; the methods below read \<^verbatim>\<open>self.conf\<close>). The other
  four attributes are those \<^verbatim>\<open>Store.__init__\<close> assigns. The spec's adapter instance has
  no further field. Whether that constructor returns at all is \<open>base_Store_init\<close> of the
  environment.
\<close>

record store =
  conf :: glance_store_conf
  session :: session
  service_type :: string
  service_name :: string
  endpoint_type :: string

text \<open>
  \<^verbatim>\<open>str.split(sep)\<close> with a separator of one character: the pieces between the
  separators, empty pieces kept, so the result is never empty.
\<close>

fun py_split :: "char \<Rightarrow> string \<Rightarrow> string list" where
  "py_split sep [] = [[]]"
| "py_split sep (c # cs) =
     (if c = sep then [] # py_split sep cs
      else (case py_split sep cs of [] \<Rightarrow> [[c]] | w # ws \<Rightarrow> (c # w) # ws))"

text \<open>
  \<^verbatim>\<open>Store.__init__\<close>: the constructor of the base class, the session, the split. The
  assignment \<^verbatim>\<open>a, b, c = info\<close> raises \<^verbatim>\<open>ValueError\<close> unless \<^verbatim>\<open>info\<close> has three
  elements, before anything is assigned.
\<close>

definition Store_init :: "env \<Rightarrow> glance_store_conf \<Rightarrow> store result" where
  "Store_init env cnf =
     (case base_Store_init env cnf of
        Inl e \<Rightarrow> Inl e
      | Inr _ \<Rightarrow>
          (case load_from_conf_options env cnf of
             Inl e \<Rightarrow> Inl e
           | Inr s \<Rightarrow>
               (let info = py_split CHR '':'' (cinder_catalog_info cnf)
                in case info of
                     [a, b, c] \<Rightarrow>
                       Inr \<lparr>conf = cnf, session = s,
                            service_type = a, service_name = b, endpoint_type = c\<rparr>
                   | _ \<Rightarrow> Inl ValueError)))"

definition get_schemes :: "store \<Rightarrow> string list" where
  "get_schemes self = [''cinder'']"

definition check_context :: "store \<Rightarrow> request_context option \<Rightarrow> unit result" where
  "check_context self context =
     (case context of
        None \<Rightarrow>
          (let reason = ''Cinder storage requires a context.''
           in Inl (BadStoreConfiguration ''cinder'' reason))
      | Some _ \<Rightarrow> Inr ())"

text \<open>
  \<^verbatim>\<open>_get_cinderclient\<close>. A template that is \<^verbatim>\<open>None\<close> or empty is false in the \<^verbatim>\<open>if\<close>.
  The interpolated \<open>endpoint_override\<close> is bound and, as in the source, not used after.
  On \<^verbatim>\<open>None\<close> the attribute lookups \<^verbatim>\<open>context.to_dict\<close> and
  \<^verbatim>\<open>context.get_auth_plugin\<close> raise \<^verbatim>\<open>AttributeError\<close>.
\<close>

definition get_cinderclient :: "env \<Rightarrow> store \<Rightarrow> request_context option \<Rightarrow> client result" where
  "get_cinderclient env self context =
     (case (case cinder_endpoint_template (conf self) of
              None \<Rightarrow> Inr None
            | Some t \<Rightarrow>
                if t = [] then Inr (Some t)
                else (case context of
                        None \<Rightarrow> Inl (AttributeError ''to_dict'')
                      | Some c \<Rightarrow>
                          (case percent env t (to_dict c) of
                             Inl e \<Rightarrow> Inl e
                           | Inr u \<Rightarrow> Inr (Some u)))) of
        Inl e \<Rightarrow> Inl e
      | Inr endpoint_override \<Rightarrow>
          (case context of
             None \<Rightarrow> Inl (AttributeError ''get_auth_plugin'')
           | Some c \<Rightarrow>
               (let auth_plugin = get_auth_plugin c
                in Inr (Client
                     [(''session'', PSession (session self)),
                      (''auth'', PAuth auth_plugin),
                      (''region_name'', PStr (os_region_name (conf self))),
                      (''retries'', PInt (cinder_http_retries (conf self)))]))))"

text \<open>
  The attribute lookup \<^verbatim>\<open>self.volume_id\<close> on a \<^verbatim>\<open>Store\<close>. Neither the class nor its
  constructor defines an attribute of that name (the identifier of the volume is an
  attribute of the location, \<^verbatim>\<open>loc.volume_id\<close>), so the lookup raises.
\<close>

definition Store_volume_id :: "store \<Rightarrow> string result" where
  "Store_volume_id self = Inl (AttributeError ''volume_id'')"

text \<open>A \<^verbatim>\<open>glance_store.location.Location\<close>, as far as \<^verbatim>\<open>get_size\<close> reads it.\<close>

record location =
  store_location :: store_location

text \<open>
  The body of the \<^verbatim>\<open>try\<close> of \<^verbatim>\<open>get_size\<close>: three calls and the conversion from
  gigabytes to bytes. The first exception ends it.
\<close>

definition get_size_body ::
  "env \<Rightarrow> store \<Rightarrow> store_location \<Rightarrow> request_context option \<Rightarrow> int result" where
  "get_size_body env self loc context =
     (case check_context self context of
        Inl e \<Rightarrow> Inl e
      | Inr _ \<Rightarrow>
          (case get_cinderclient env self context of
             Inl e \<Rightarrow> Inl e
           | Inr cl \<Rightarrow>
               (case volumes_get env cl (volume_id loc) of
                  Inl e \<Rightarrow> Inl e
                | Inr volume \<Rightarrow> Inr (volume_size volume * (1024 ^ 3)))))"

text \<open>
  \<^verbatim>\<open>get_size\<close>: the body and the three handlers in the order of the source. An exception
  raised inside a handler leaves the function: the later handlers of the same \<^verbatim>\<open>try\<close>
  do not see it. In the first handler the message is built before \<^verbatim>\<open>LOG.error\<close> and the
  \<^verbatim>\<open>raise\<close>, and building it reads \<^verbatim>\<open>self.volume_id\<close>.
\<close>

definition get_size ::
  "env \<Rightarrow> store \<Rightarrow> location \<Rightarrow> request_context option \<Rightarrow> log_record list \<times> int result" where
  "get_size env self location context =
     (let loc = store_location location
      in case get_size_body env self loc context of
           Inr n \<Rightarrow> ([], Inr n)
         | Inl e \<Rightarrow>
             (case e of
                CinderNotFound _ \<Rightarrow>
                  (case Store_volume_id self of
                     Inl e' \<Rightarrow> ([], Inl e')
                   | Inr v \<Rightarrow>
                       (let reason =
                              ''Failed to get image size due to volume can not be found: '' @ v
                        in ([LogError reason], Inl (NotFound reason))))
              | EndpointNotFound _ \<Rightarrow>
                  (let reason = ''Cinder endpoint could not be determined''
                   in ([], Inl (BadStoreConfiguration ''cinder'' reason)))
              | _ \<Rightarrow>
                  ([LogException ''Failed to get image size due to internal error: '' e],
                   Inr 0)))"

section \<open>Properties of the location\<close>

lemma py_str_Some: "py_str (Some s) = s"
  by (simp add: py_str_def)

text \<open>
  C10. \<^verbatim>\<open>get_uri\<close> reads only \<^verbatim>\<open>volume_id\<close>: it returns \<^verbatim>\<open>cinder://\<close> followed by the
  stored identifier (the text \<^verbatim>\<open>None\<close> when none is stored), whatever the scheme
  attribute holds. \<^verbatim>\<open>process_specs\<close> accepts every mapping, also one with another
  scheme or with no \<^verbatim>\<open>volume_id\<close>, and the URI of the location it builds is
  \<^verbatim>\<open>cinder://\<close> followed by the mapping's \<^verbatim>\<open>volume_id\<close>.
\<close>

theorem get_uri_ignores_scheme:
  "get_uri self = ''cinder://'' @ py_str (volume_id self)
   \<and> get_uri (self\<lparr>scheme := s\<rparr>) = get_uri self
   \<and> get_uri (self\<lparr>volume_id := Some v\<rparr>) = ''cinder://'' @ v
   \<and> get_uri (process_specs self) = ''cinder://'' @ py_str (specs self ''volume_id'')
   \<and> scheme (process_specs (self\<lparr>specs := (specs self)(''scheme'' \<mapsto> s)\<rparr>)) = s
   \<and> get_uri (process_specs (self\<lparr>specs := (specs self)(''scheme'' \<mapsto> s)\<rparr>))
       = ''cinder://'' @ py_str (specs self ''volume_id'')"
  by (simp add: get_uri_def process_specs_def py_str_def)

theorem get_uri_ignores_scheme_witness:
  "get_uri (process_specs \<lparr>specs = [''scheme'' \<mapsto> ''swift'', ''volume_id'' \<mapsto> ''v1''],
                           scheme = '''', volume_id = None\<rparr>) = ''cinder://v1''
   \<and> get_uri (process_specs \<lparr>specs = [''scheme'' \<mapsto> ''swift''],
                             scheme = '''', volume_id = None\<rparr>) = ''cinder://None''"
  using get_uri_ignores_scheme
    [of "\<lparr>specs = [''scheme'' \<mapsto> ''swift'', ''volume_id'' \<mapsto> ''v1''],
          scheme = '''', volume_id = None\<rparr>"]
    get_uri_ignores_scheme
    [of "\<lparr>specs = [''scheme'' \<mapsto> ''swift''], scheme = '''', volume_id = None\<rparr>"]
  by (simp add: py_str_def)

subsection \<open>Parsing\<close>

lemma prefix_cinder_drop: "prefix ''cinder://'' s \<Longrightarrow> s = ''cinder://'' @ drop 9 s"
  by (auto simp: prefix_def)

lemma parse_uri_no_prefix:
  "\<not> prefix ''cinder://'' s \<Longrightarrow>
     parse_uri self s =
       (self, [LogInfo (''URI must start with '' @ [CHR 0x27] @ ''cinder://'' @ [CHR 0x27])],
        Inl (BadStoreUri (''URI must start with '' @ [CHR 0x27] @ ''cinder://'' @ [CHR 0x27])))"
  by (simp add: parse_uri_def Let_def)

lemma parse_uri_prefix:
  "prefix ''cinder://'' s \<Longrightarrow>
     parse_uri self s =
       (self\<lparr>scheme := ''cinder'', volume_id := Some (drop 9 s)\<rparr>,
        if is_uuid_like (drop 9 s) then [] else [LogInfo ''URI contains invalid volume ID''],
        if is_uuid_like (drop 9 s) then Inr ()
        else Inl (BadStoreUri ''URI contains invalid volume ID''))"
  by (simp add: parse_uri_def Let_def)

lemma uuid_class_x: "uuid_class c = CHR ''x'' \<longleftrightarrow> is_hex_digit c"
  by (simp add: uuid_class_def)

lemma uuid_class_dash: "uuid_class c = CHR ''-'' \<longleftrightarrow> c = CHR ''-''"
  by (simp add: uuid_class_def is_hex_digit_def)

lemma uuid_shape_nth:
  "\<forall>i \<in> set [0..<36]. ''xxxxxxxx-xxxx-xxxx-xxxx-xxxxxxxxxxxx'' ! i =
      (if i \<in> {8, 13, 18, 23} then CHR ''-'' else CHR ''x'')"
  by code_simp

text \<open>
  The executable test is the shape in the spec's words: 36 characters, a hyphen at the
  positions 8, 13, 18 and 23 (after groups of 8, 4, 4 and 4), and a hexadecimal digit of
  either case everywhere else.
\<close>

lemma is_uuid_like_shape:
  "is_uuid_like t \<longleftrightarrow>
     length t = 36 \<and>
     (\<forall>i<36. if i \<in> {8, 13, 18, 23} then t ! i = CHR ''-'' else is_hex_digit (t ! i))"
proof -
  let ?p = "''xxxxxxxx-xxxx-xxxx-xxxx-xxxxxxxxxxxx''"
  have len: "length ?p = 36" by simp
  have nth: "?p ! i = (if i \<in> {8, 13, 18, 23} then CHR ''-'' else CHR ''x'')" if "i < 36" for i
    using uuid_shape_nth that
    by (simp del: upt.simps set_upt add: atLeast_upt [symmetric] Ball_def)
  have "is_uuid_like t \<longleftrightarrow> length t = 36 \<and> (\<forall>i<36. uuid_class (t ! i) = ?p ! i)"
    unfolding is_uuid_like_def list_eq_iff_nth_eq [of "map uuid_class t" ?p] len
    by (auto simp del: nth_Cons_numeral)
  also have "\<dots> \<longleftrightarrow> length t = 36 \<and>
     (\<forall>i<36. if i \<in> {8, 13, 18, 23} then t ! i = CHR ''-'' else is_hex_digit (t ! i))"
    using nth by (auto simp only: uuid_class_x uuid_class_dash split: if_splits)
  finally show ?thesis .
qed

text \<open>
  C6. \<^verbatim>\<open>parse_uri\<close> raises \<^verbatim>\<open>BadStoreUri\<close> with the message
  \<^verbatim>\<open>URI must start with 'cinder://'\<close> exactly when the string does not start with
  \<^verbatim>\<open>cinder://\<close>; then nothing is assigned and the only log record is that message, so
  the identifier was never looked at. When the string has the prefix, the rest of it is
  stored verbatim as \<^verbatim>\<open>volume_id\<close>, and \<^verbatim>\<open>BadStoreUri\<close> with the message
  \<^verbatim>\<open>URI contains invalid volume ID\<close> is raised exactly when that rest is not UUID-like
  (the 8-4-4-4-12 shape of hexadecimal digits of either case). Otherwise the call
  returns, with scheme \<^verbatim>\<open>cinder\<close> and that identifier.
\<close>

theorem parse_uri_cases:
  "(snd (snd (parse_uri self s)) =
      Inl (BadStoreUri (''URI must start with '' @ [CHR 0x27] @ ''cinder://'' @ [CHR 0x27])))
     = (\<not> prefix ''cinder://'' s)
   \<and> (\<not> prefix ''cinder://'' s \<longrightarrow>
        parse_uri self s =
          (self, [LogInfo (''URI must start with '' @ [CHR 0x27] @ ''cinder://'' @ [CHR 0x27])],
           Inl (BadStoreUri (''URI must start with '' @ [CHR 0x27] @ ''cinder://'' @ [CHR 0x27]))))
   \<and> (prefix ''cinder://'' s \<longrightarrow>
        s = ''cinder://'' @ drop 9 s
        \<and> fst (parse_uri self s) = self\<lparr>scheme := ''cinder'', volume_id := Some (drop 9 s)\<rparr>)
   \<and> (snd (snd (parse_uri self s)) = Inl (BadStoreUri ''URI contains invalid volume ID''))
       = (prefix ''cinder://'' s \<and> \<not> is_uuid_like (drop 9 s))
   \<and> (snd (snd (parse_uri self s)) = Inr ())
       = (prefix ''cinder://'' s \<and> is_uuid_like (drop 9 s))
   \<and> is_uuid_like (drop 9 s)
       = (length (drop 9 s) = 36 \<and>
          (\<forall>i<36. if i \<in> {8, 13, 18, 23} then drop 9 s ! i = CHR ''-''
                   else is_hex_digit (drop 9 s ! i)))"
proof (cases "prefix ''cinder://'' s")
  case True
  from prefix_cinder_drop [OF True] parse_uri_prefix [OF True, of self] True
    is_uuid_like_shape [of "drop 9 s"]
  show ?thesis by simp
next
  case False
  from parse_uri_no_prefix [OF False, of self] False is_uuid_like_shape [of "drop 9 s"]
  show ?thesis by simp
qed

theorem parse_uri_cases_witness:
  "\<not> prefix ''cinder://'' ''swift://2aa1d1c2-5f0c-4e8f-8e0d-111111111111''
   \<and> parse_uri \<lparr>specs = Map.empty, scheme = '''', volume_id = None\<rparr>
        ''swift://2aa1d1c2-5f0c-4e8f-8e0d-111111111111''
      = (\<lparr>specs = Map.empty, scheme = '''', volume_id = None\<rparr>,
         [LogInfo (''URI must start with '' @ [CHR 0x27] @ ''cinder://'' @ [CHR 0x27])],
         Inl (BadStoreUri (''URI must start with '' @ [CHR 0x27] @ ''cinder://'' @ [CHR 0x27])))
   \<and> prefix ''cinder://'' ''cinder://2aa1d1c2-5f0c-4e8f-8e0d-11111111111g''
   \<and> \<not> is_uuid_like ''2aa1d1c2-5f0c-4e8f-8e0d-11111111111g''
   \<and> snd (snd (parse_uri \<lparr>specs = Map.empty, scheme = '''', volume_id = None\<rparr>
        ''cinder://2aa1d1c2-5f0c-4e8f-8e0d-11111111111g''))
      = Inl (BadStoreUri ''URI contains invalid volume ID'')
   \<and> prefix ''cinder://'' ''cinder://2AA1D1C2-5f0c-4e8f-8e0d-111111111111''
   \<and> is_uuid_like ''2AA1D1C2-5f0c-4e8f-8e0d-111111111111''
   \<and> parse_uri \<lparr>specs = Map.empty, scheme = '''', volume_id = None\<rparr>
        ''cinder://2AA1D1C2-5f0c-4e8f-8e0d-111111111111''
      = (\<lparr>specs = Map.empty, scheme = ''cinder'',
           volume_id = Some ''2AA1D1C2-5f0c-4e8f-8e0d-111111111111''\<rparr>, [], Inr ())"
  using
    parse_uri_cases [of "\<lparr>specs = Map.empty, scheme = '''', volume_id = None\<rparr>"
      "''swift://2aa1d1c2-5f0c-4e8f-8e0d-111111111111''"]
    parse_uri_cases [of "\<lparr>specs = Map.empty, scheme = '''', volume_id = None\<rparr>"
      "''cinder://2aa1d1c2-5f0c-4e8f-8e0d-11111111111g''"]
    parse_uri_cases [of "\<lparr>specs = Map.empty, scheme = '''', volume_id = None\<rparr>"
      "''cinder://2AA1D1C2-5f0c-4e8f-8e0d-111111111111''"]
  by (simp add: parse_uri_def is_uuid_like_def uuid_class_def is_hex_digit_def)

text \<open>
  C7. The round trip: when \<^verbatim>\<open>parse_uri\<close> returns with the location \<open>L\<close>, the URI of
  \<open>L\<close> is the string that was parsed, and parsing that URI again returns, logs nothing
  and gives a location with the fields of \<open>L\<close> (into the same object: \<open>L\<close> itself).
  In particular \<^verbatim>\<open>cinder://2aa1d1c2-5f0c-4e8f-8e0d-111111111111\<close> parses to the scheme
  \<^verbatim>\<open>cinder\<close> and the identifier \<^verbatim>\<open>2aa1d1c2-5f0c-4e8f-8e0d-111111111111\<close>, and the URI
  of that location is the original string.
\<close>

theorem parse_get_uri_roundtrip:
  "(parse_uri self uri = (L, lg, Inr ()) \<longrightarrow>
      get_uri L = uri
      \<and> parse_uri self (get_uri L) = (L, [], Inr ())
      \<and> parse_uri other (get_uri L)
          = (other\<lparr>scheme := scheme L, volume_id := volume_id L\<rparr>, [], Inr ()))
   \<and> parse_uri self ''cinder://2aa1d1c2-5f0c-4e8f-8e0d-111111111111''
       = (self\<lparr>scheme := ''cinder'',
                volume_id := Some ''2aa1d1c2-5f0c-4e8f-8e0d-111111111111''\<rparr>, [], Inr ())
   \<and> get_uri (self\<lparr>scheme := ''cinder'',
                    volume_id := Some ''2aa1d1c2-5f0c-4e8f-8e0d-111111111111''\<rparr>)
       = ''cinder://2aa1d1c2-5f0c-4e8f-8e0d-111111111111''"
proof -
  have general: "get_uri L = uri \<and> parse_uri self (get_uri L) = (L, [], Inr ())
      \<and> parse_uri other (get_uri L)
          = (other\<lparr>scheme := scheme L, volume_id := volume_id L\<rparr>, [], Inr ())"
    if ok: "parse_uri self uri = (L, lg, Inr ())"
  proof -
    have pre: "prefix ''cinder://'' uri"
    proof (rule ccontr)
      assume "\<not> prefix ''cinder://'' uri"
      from parse_uri_no_prefix [OF this, of self] ok show False by simp
    qed
    from parse_uri_prefix [OF pre, of self] ok
    have uu: "is_uuid_like (drop 9 uri)"
      and L: "L = self\<lparr>scheme := ''cinder'', volume_id := Some (drop 9 uri)\<rparr>"
      by (auto split: if_splits)
    have uri: "get_uri L = uri"
      using prefix_cinder_drop [OF pre] by (simp add: L get_uri_def py_str_def)
    from parse_uri_prefix [OF pre, of self] uu
    have "parse_uri self uri = (L, [], Inr ())" by (simp add: L)
    moreover from parse_uri_prefix [OF pre, of other] uu
    have "parse_uri other uri
          = (other\<lparr>scheme := scheme L, volume_id := volume_id L\<rparr>, [], Inr ())"
      by (simp add: L)
    ultimately show ?thesis using uri by simp
  qed
  have concrete: "parse_uri self ''cinder://2aa1d1c2-5f0c-4e8f-8e0d-111111111111''
       = (self\<lparr>scheme := ''cinder'',
                volume_id := Some ''2aa1d1c2-5f0c-4e8f-8e0d-111111111111''\<rparr>, [], Inr ())"
    by (simp add: parse_uri_def is_uuid_like_def uuid_class_def is_hex_digit_def)
  have render: "get_uri (self\<lparr>scheme := ''cinder'',
                    volume_id := Some ''2aa1d1c2-5f0c-4e8f-8e0d-111111111111''\<rparr>)
       = ''cinder://2aa1d1c2-5f0c-4e8f-8e0d-111111111111''"
    by (simp add: get_uri_def py_str_def)
  from general concrete render show ?thesis by blast
qed

theorem parse_get_uri_roundtrip_witness:
  "parse_uri \<lparr>specs = Map.empty, scheme = '''', volume_id = None\<rparr>
      ''cinder://2aa1d1c2-5f0c-4e8f-8e0d-111111111111''
     = (\<lparr>specs = Map.empty, scheme = ''cinder'',
          volume_id = Some ''2aa1d1c2-5f0c-4e8f-8e0d-111111111111''\<rparr>, [], Inr ())
   \<and> get_uri \<lparr>specs = Map.empty, scheme = ''cinder'',
          volume_id = Some ''2aa1d1c2-5f0c-4e8f-8e0d-111111111111''\<rparr>
     = ''cinder://2aa1d1c2-5f0c-4e8f-8e0d-111111111111''
   \<and> parse_uri \<lparr>specs = [''scheme'' \<mapsto> ''swift''], scheme = ''swift'', volume_id = None\<rparr>
      (get_uri \<lparr>specs = Map.empty, scheme = ''cinder'',
          volume_id = Some ''2aa1d1c2-5f0c-4e8f-8e0d-111111111111''\<rparr>)
     = (\<lparr>specs = [''scheme'' \<mapsto> ''swift''], scheme = ''cinder'',
          volume_id = Some ''2aa1d1c2-5f0c-4e8f-8e0d-111111111111''\<rparr>, [], Inr ())"
proof -
  have ok: "parse_uri \<lparr>specs = Map.empty, scheme = '''', volume_id = None\<rparr>
      ''cinder://2aa1d1c2-5f0c-4e8f-8e0d-111111111111''
     = (\<lparr>specs = Map.empty, scheme = ''cinder'',
          volume_id = Some ''2aa1d1c2-5f0c-4e8f-8e0d-111111111111''\<rparr>, [], Inr ())"
    by (simp add: parse_uri_def is_uuid_like_def uuid_class_def is_hex_digit_def)
  from ok parse_get_uri_roundtrip
    [of "\<lparr>specs = Map.empty, scheme = '''', volume_id = None\<rparr>"
        "''cinder://2aa1d1c2-5f0c-4e8f-8e0d-111111111111''"
        "\<lparr>specs = Map.empty, scheme = ''cinder'',
          volume_id = Some ''2aa1d1c2-5f0c-4e8f-8e0d-111111111111''\<rparr>"
        "[]"
        "\<lparr>specs = [''scheme'' \<mapsto> ''swift''], scheme = ''swift'', volume_id = None\<rparr>"]
  show ?thesis by (simp add: get_uri_def py_str_def)
qed

section \<open>Properties of the store\<close>

subsection \<open>Construction\<close>

lemma py_split_nonempty: "py_split sep s \<noteq> []"
  by (induction s) (auto split: list.splits)

lemma length_py_split: "length (py_split sep s) = Suc (count_list s sep)"
  by (induction s) (auto split: list.splits simp: py_split_nonempty)

lemma py_split_Cons:
  "py_split sep s = w # ws \<Longrightarrow>
     sep \<notin> set w \<and>
     (if ws = [] then s = w else \<exists>r. s = w @ sep # r \<and> py_split sep r = ws)"
proof (induction s arbitrary: w ws)
  case Nil
  then show ?case by simp
next
  case (Cons c cs)
  show ?case
  proof (cases "c = sep")
    case True
    with Cons.prems show ?thesis by (auto simp: py_split_nonempty)
  next
    case False
    with Cons.prems obtain w' where w: "py_split sep cs = w' # ws" "w = c # w'"
      by (auto split: list.splits simp: py_split_nonempty)
    from Cons.IH [OF w(1)] w(2) False show ?thesis by auto
  qed
qed

lemma py_split_three:
  assumes "py_split sep s = [a, b, c]"
  shows "s = a @ sep # b @ sep # c" and "sep \<notin> set a \<union> set b \<union> set c"
proof -
  from py_split_Cons [OF assms] obtain r1 where
    a: "sep \<notin> set a" "s = a @ sep # r1" "py_split sep r1 = [b, c]" by auto
  from py_split_Cons [OF a(3)] obtain r2 where
    b: "sep \<notin> set b" "r1 = b @ sep # r2" "py_split sep r2 = [c]" by auto
  from py_split_Cons [OF b(3)] have c: "sep \<notin> set c" "r2 = c" by auto
  from a b c show "s = a @ sep # b @ sep # c" by simp
  from a b c show "sep \<notin> set a \<union> set b \<union> set c" by simp
qed

text \<open>
  C9, as the claim states it, fails: where the base constructor returns and the session
  loads, the catalog information \<^verbatim>\<open>volume:cinder\<close> (two fields) makes the constructor
  raise \<^verbatim>\<open>ValueError\<close>, the error of the unpacking assignment, and not
  \<^verbatim>\<open>BadStoreConfiguration\<close>.
\<close>

theorem Store_init_two_fields_ValueError:
  "Store_init
     \<lparr>base_Store_init = \<lambda>cnf. Inr (),
      load_from_conf_options = \<lambda>cnf. Inr (Session ''s''),
      percent = \<lambda>t d. Inl (OtherError ''unused''),
      volumes_get = \<lambda>cl v. Inl (OtherError ''unused'')\<rparr>
     \<lparr>cinder_catalog_info = ''volume:cinder'',
      cinder_endpoint_template = None,
      os_region_name = None,
      cinder_http_retries = 3\<rparr>
   = Inl ValueError"
  by (simp add: Store_init_def)

text \<open>
  C9, amended. An exception of the base constructor, and after it an exception of the
  session loader, leaves \<^verbatim>\<open>Store.__init__\<close> unchanged, whatever the catalog information
  is. When the base constructor returns and the session loads: the catalog information
  splits on \<^verbatim>\<open>:\<close> into one field more than it has colons; unless these are exactly
  three fields (two colons), the constructor raises \<^verbatim>\<open>ValueError\<close> and there is no
  adapter; when they are three, the constructor returns, and the adapter's service
  type, service name and endpoint type are the three fields in that order: colon-free
  strings that, joined by colons, are the catalog information.
\<close>

theorem Store_init_catalog_info:
  "(base_Store_init env cnf = Inl e \<longrightarrow> Store_init env cnf = Inl e)
   \<and> (base_Store_init env cnf = Inr () \<and> load_from_conf_options env cnf = Inl e \<longrightarrow>
        Store_init env cnf = Inl e)
   \<and> (base_Store_init env cnf = Inr () \<and> load_from_conf_options env cnf = Inr s \<longrightarrow>
        length (py_split CHR '':'' (cinder_catalog_info cnf))
          = Suc (count_list (cinder_catalog_info cnf) CHR '':'')
        \<and> (length (py_split CHR '':'' (cinder_catalog_info cnf)) \<noteq> 3 \<longrightarrow>
             Store_init env cnf = Inl ValueError)
        \<and> (length (py_split CHR '':'' (cinder_catalog_info cnf)) = 3 \<longrightarrow>
             (\<exists>a b c. Store_init env cnf =
                  Inr \<lparr>conf = cnf, session = s,
                       service_type = a, service_name = b, endpoint_type = c\<rparr>
                \<and> py_split CHR '':'' (cinder_catalog_info cnf) = [a, b, c]
                \<and> cinder_catalog_info cnf = a @ '':'' @ b @ '':'' @ c
                \<and> CHR '':'' \<notin> set a \<union> set b \<union> set c)))"
proof -
  have base: "Store_init env cnf = Inl e" if "base_Store_init env cnf = Inl e"
    using that by (simp add: Store_init_def)
  have load: "Store_init env cnf = Inl e"
    if "base_Store_init env cnf = Inr ()" "load_from_conf_options env cnf = Inl e"
    using that by (simp add: Store_init_def)
  have len: "length (py_split CHR '':'' (cinder_catalog_info cnf))
          = Suc (count_list (cinder_catalog_info cnf) CHR '':'')"
    by (rule length_py_split)
  have bad: "Store_init env cnf = Inl ValueError"
    if "base_Store_init env cnf = Inr ()" "load_from_conf_options env cnf = Inr s"
      "length (py_split CHR '':'' (cinder_catalog_info cnf)) \<noteq> 3"
    using that by (auto simp: Store_init_def Let_def split: list.splits)
  have good: "\<exists>a b c. Store_init env cnf =
               Inr \<lparr>conf = cnf, session = s,
                    service_type = a, service_name = b, endpoint_type = c\<rparr>
             \<and> py_split CHR '':'' (cinder_catalog_info cnf) = [a, b, c]
             \<and> cinder_catalog_info cnf = a @ '':'' @ b @ '':'' @ c
             \<and> CHR '':'' \<notin> set a \<union> set b \<union> set c"
    if b: "base_Store_init env cnf = Inr ()" and s: "load_from_conf_options env cnf = Inr s"
      and three: "length (py_split CHR '':'' (cinder_catalog_info cnf)) = 3"
  proof -
    from three obtain a b c where
      abc: "py_split CHR '':'' (cinder_catalog_info cnf) = [a, b, c]"
      by (auto simp: length_Suc_conv numeral_3_eq_3)
    from py_split_three [OF abc] abc b s show ?thesis
      by (auto simp: Store_init_def)
  qed
  from base load len bad good show ?thesis by blast
qed

theorem Store_init_catalog_info_witness:
  "Store_init
     \<lparr>base_Store_init = \<lambda>cnf. Inr (),
      load_from_conf_options = \<lambda>cnf. Inr (Session ''s''),
      percent = \<lambda>t d. Inl (OtherError ''unused''),
      volumes_get = \<lambda>cl v. Inl (OtherError ''unused'')\<rparr>
     default_conf
   = Inr \<lparr>conf = default_conf, session = Session ''s'',
          service_type = ''volume'', service_name = ''cinder'', endpoint_type = ''publicURL''\<rparr>
   \<and> Store_init
     \<lparr>base_Store_init = \<lambda>cnf. Inr (),
      load_from_conf_options = \<lambda>cnf. Inr (Session ''s''),
      percent = \<lambda>t d. Inl (OtherError ''unused''),
      volumes_get = \<lambda>cl v. Inl (OtherError ''unused'')\<rparr>
     (default_conf\<lparr>cinder_catalog_info := ''a:b:c:d''\<rparr>)
   = Inl ValueError
   \<and> Store_init
     \<lparr>base_Store_init = \<lambda>cnf. Inr (),
      load_from_conf_options = \<lambda>cnf. Inl (OtherError ''no certificate file''),
      percent = \<lambda>t d. Inl (OtherError ''unused''),
      volumes_get = \<lambda>cl v. Inl (OtherError ''unused'')\<rparr>
     default_conf
   = Inl (OtherError ''no certificate file'')
   \<and> Store_init
     \<lparr>base_Store_init = \<lambda>cnf. Inl (AttributeError ''dest''),
      load_from_conf_options = \<lambda>cnf. Inr (Session ''s''),
      percent = \<lambda>t d. Inl (OtherError ''unused''),
      volumes_get = \<lambda>cl v. Inl (OtherError ''unused'')\<rparr>
     default_conf
   = Inl (AttributeError ''dest'')"
  using
    Store_init_catalog_info
      [of "\<lparr>base_Store_init = \<lambda>cnf. Inr (),
            load_from_conf_options = \<lambda>cnf. Inr (Session ''s''),
            percent = \<lambda>t d. Inl (OtherError ''unused''),
            volumes_get = \<lambda>cl v. Inl (OtherError ''unused'')\<rparr>"
          default_conf "OtherError ''x''" "Session ''s''"]
    Store_init_catalog_info
      [of "\<lparr>base_Store_init = \<lambda>cnf. Inr (),
            load_from_conf_options = \<lambda>cnf. Inr (Session ''s''),
            percent = \<lambda>t d. Inl (OtherError ''unused''),
            volumes_get = \<lambda>cl v. Inl (OtherError ''unused'')\<rparr>"
          "default_conf\<lparr>cinder_catalog_info := ''a:b:c:d''\<rparr>"
          "OtherError ''x''" "Session ''s''"]
    Store_init_catalog_info
      [of "\<lparr>base_Store_init = \<lambda>cnf. Inr (),
            load_from_conf_options = \<lambda>cnf. Inl (OtherError ''no certificate file''),
            percent = \<lambda>t d. Inl (OtherError ''unused''),
            volumes_get = \<lambda>cl v. Inl (OtherError ''unused'')\<rparr>"
          default_conf "OtherError ''no certificate file''" "Session ''s''"]
    Store_init_catalog_info
      [of "\<lparr>base_Store_init = \<lambda>cnf. Inl (AttributeError ''dest''),
            load_from_conf_options = \<lambda>cnf. Inr (Session ''s''),
            percent = \<lambda>t d. Inl (OtherError ''unused''),
            volumes_get = \<lambda>cl v. Inl (OtherError ''unused'')\<rparr>"
          default_conf "AttributeError ''dest''" "Session ''s''"]
  by (simp add: default_conf_def)

subsection \<open>The client\<close>

text \<open>
  C5. What the code does: \<^verbatim>\<open>_get_cinderclient\<close> either raises or returns a client built
  from exactly four arguments: the session, the authentication plugin of the context,
  the region name and the retry count. The interpolated endpoint is not among them: a
  store with a template (whose interpolation returns) gets the client that the same
  store without a template gets. The service type, service name and endpoint type of
  the store are not passed either.
\<close>

theorem get_cinderclient_arguments:
  "((\<exists>e. get_cinderclient env self (Some c) = Inl e)
     \<or> get_cinderclient env self (Some c)
        = Inr (Client [(''session'', PSession (session self)),
                       (''auth'', PAuth (get_auth_plugin c)),
                       (''region_name'', PStr (os_region_name (conf self))),
                       (''retries'', PInt (cinder_http_retries (conf self)))]))
   \<and> get_cinderclient (env\<lparr>percent := \<lambda>t d. Inr u\<rparr>)
        (self\<lparr>conf := (conf self)\<lparr>cinder_endpoint_template := Some t\<rparr>\<rparr>) (Some c)
       = get_cinderclient env
           (self\<lparr>conf := (conf self)\<lparr>cinder_endpoint_template := None\<rparr>\<rparr>) (Some c)
   \<and> get_cinderclient env
        (self\<lparr>service_type := a, service_name := b, endpoint_type := d\<rparr>) (Some c)
       = get_cinderclient env self (Some c)"
  by (simp add: get_cinderclient_def split: option.splits sum.splits)

subsection \<open>The size of a volume\<close>

lemma get_size_body_None:
  "get_size_body env self loc None =
     Inl (BadStoreConfiguration ''cinder'' ''Cinder storage requires a context.'')"
  by (simp add: get_size_body_def check_context_def)

lemma get_size_body_Some:
  "get_cinderclient env self (Some c) = Inr cl \<Longrightarrow>
     get_size_body env self loc (Some c) =
       (case volumes_get env cl (volume_id loc) of
          Inl e \<Rightarrow> Inl e
        | Inr v \<Rightarrow> Inr (volume_size v * 1024 ^ 3))"
  by (simp add: get_size_body_def check_context_def)

lemma get_size_of_body:
  "get_size env self location context =
     (case get_size_body env self (store_location location) context of
        Inr n \<Rightarrow> ([], Inr n)
      | Inl e \<Rightarrow>
          (case e of
             CinderNotFound _ \<Rightarrow> ([], Inl (AttributeError ''volume_id''))
           | EndpointNotFound _ \<Rightarrow>
               ([], Inl (BadStoreConfiguration ''cinder''
                           ''Cinder endpoint could not be determined''))
           | _ \<Rightarrow>
               ([LogException ''Failed to get image size due to internal error: '' e], Inr 0)))"
proof (cases "get_size_body env self (store_location location) context")
  case (Inl e)
  then show ?thesis
    by (cases e) (simp_all add: get_size_def Store_volume_id_def Let_def)
next
  case (Inr n)
  then show ?thesis by (simp add: get_size_def)
qed

text \<open>
  C1. What the code does without a context: \<^verbatim>\<open>_check_context\<close> raises
  \<^verbatim>\<open>BadStoreConfiguration\<close> inside the \<^verbatim>\<open>try\<close>, before a client is built; the last
  handler catches it, and \<^verbatim>\<open>get_size\<close> logs it and returns 0.
\<close>

theorem get_size_without_context:
  "get_size env self location None =
     ([LogException ''Failed to get image size due to internal error: ''
         (BadStoreConfiguration ''cinder'' ''Cinder storage requires a context.'')],
      Inr 0)"
  by (simp add: get_size_of_body get_size_body_None)

text \<open>
  C2. What the code does when the volume service answers that the volume does not
  exist: the handler reads \<^verbatim>\<open>self.volume_id\<close>, and \<^verbatim>\<open>get_size\<close> leaves with that
  \<^verbatim>\<open>AttributeError\<close>; nothing is logged and \<^verbatim>\<open>NotFound\<close> is not raised.
\<close>

theorem get_size_volume_not_found:
  "get_size (env\<lparr>volumes_get := \<lambda>cl v. Inl (CinderNotFound m)\<rparr>)
      (self\<lparr>conf := (conf self)\<lparr>cinder_endpoint_template := None\<rparr>\<rparr>) location (Some c)
     = ([], Inl (AttributeError ''volume_id''))"
  by (simp add: get_size_of_body get_size_body_def check_context_def get_cinderclient_def)

text \<open>
  C3. What crosses out of \<^verbatim>\<open>get_size\<close>: every call returns a number, or raises the
  \<^verbatim>\<open>AttributeError\<close> of \<^verbatim>\<open>self.volume_id\<close>, or raises \<^verbatim>\<open>BadStoreConfiguration\<close> for
  the endpoint. \<^verbatim>\<open>NotFound\<close> never crosses, and the \<^verbatim>\<open>AttributeError\<close> does, whenever
  the volume service answers that the volume does not exist.
\<close>

theorem get_size_raises:
  "((\<exists>n. snd (get_size env self location context) = Inr n)
     \<or> snd (get_size env self location context) = Inl (AttributeError ''volume_id'')
     \<or> snd (get_size env self location context)
         = Inl (BadStoreConfiguration ''cinder'' ''Cinder endpoint could not be determined''))
   \<and> (\<forall>m. snd (get_size env self location context) \<noteq> Inl (NotFound m))
   \<and> get_size (env\<lparr>percent := \<lambda>t d. Inr u, volumes_get := \<lambda>cl v. Inl (CinderNotFound m)\<rparr>)
        self location (Some c)
       = ([], Inl (AttributeError ''volume_id''))"
proof -
  have conc:
    "get_size (env\<lparr>percent := \<lambda>t d. Inr u, volumes_get := \<lambda>cl v. Inl (CinderNotFound m)\<rparr>)
        self location (Some c)
       = ([], Inl (AttributeError ''volume_id''))"
    by (simp add: get_size_of_body get_size_body_def check_context_def get_cinderclient_def
          split: option.splits)
  show ?thesis
    unfolding get_size_of_body using conc [unfolded get_size_of_body]
    by (simp split: sum.splits exn.splits)
qed

text \<open>
  C4. When the client is built and the remote call raises: an exception that is neither
  the volume service's not-found nor keystone's endpoint-not-found makes \<^verbatim>\<open>get_size\<close>
  return 0, with one record of the logger that carries the exception; keystone's
  endpoint-not-found makes it raise \<^verbatim>\<open>BadStoreConfiguration\<close>.
\<close>

theorem get_size_remote_failure:
  assumes "get_cinderclient env self (Some c) = Inr cl"
    and "volumes_get env cl (volume_id (store_location location)) = Inl e"
  shows "((\<forall>m. e \<noteq> CinderNotFound m) \<and> (\<forall>m. e \<noteq> EndpointNotFound m) \<longrightarrow>
            get_size env self location (Some c)
              = ([LogException ''Failed to get image size due to internal error: '' e], Inr 0))
       \<and> ((\<exists>m. e = EndpointNotFound m) \<longrightarrow>
            get_size env self location (Some c)
              = ([], Inl (BadStoreConfiguration ''cinder''
                            ''Cinder endpoint could not be determined'')))"
  using assms by (cases e) (simp_all add: get_size_of_body get_size_body_Some)

theorem get_size_remote_failure_witness:
  "get_size
     \<lparr>base_Store_init = \<lambda>cnf. Inr (),
      load_from_conf_options = \<lambda>cnf. Inr (Session ''s''),
      percent = \<lambda>t d. Inl (OtherError ''unused''),
      volumes_get = \<lambda>cl v. Inl (OtherError ''connection refused'')\<rparr>
     \<lparr>conf = default_conf, session = Session ''s'',
      service_type = ''volume'', service_name = ''cinder'', endpoint_type = ''publicURL''\<rparr>
     \<lparr>store_location =
        \<lparr>specs = Map.empty, scheme = ''cinder'',
         volume_id = Some ''2aa1d1c2-5f0c-4e8f-8e0d-111111111111''\<rparr>\<rparr>
     (Some \<lparr>to_dict = [(''project_id'', ''p1'')], get_auth_plugin = AuthPlugin ''token''\<rparr>)
   = ([LogException ''Failed to get image size due to internal error: ''
         (OtherError ''connection refused'')], Inr 0)
   \<and> get_size
     \<lparr>base_Store_init = \<lambda>cnf. Inr (),
      load_from_conf_options = \<lambda>cnf. Inr (Session ''s''),
      percent = \<lambda>t d. Inl (OtherError ''unused''),
      volumes_get = \<lambda>cl v. Inl (EndpointNotFound ''no endpoint'')\<rparr>
     \<lparr>conf = default_conf, session = Session ''s'',
      service_type = ''volume'', service_name = ''cinder'', endpoint_type = ''publicURL''\<rparr>
     \<lparr>store_location =
        \<lparr>specs = Map.empty, scheme = ''cinder'',
         volume_id = Some ''2aa1d1c2-5f0c-4e8f-8e0d-111111111111''\<rparr>\<rparr>
     (Some \<lparr>to_dict = [(''project_id'', ''p1'')], get_auth_plugin = AuthPlugin ''token''\<rparr>)
   = ([], Inl (BadStoreConfiguration ''cinder'' ''Cinder endpoint could not be determined''))"
proof -
  let ?S = "\<lparr>conf = default_conf, session = Session ''s'',
      service_type = ''volume'', service_name = ''cinder'', endpoint_type = ''publicURL''\<rparr>"
  let ?L = "\<lparr>store_location =
        \<lparr>specs = Map.empty, scheme = ''cinder'',
         volume_id = Some ''2aa1d1c2-5f0c-4e8f-8e0d-111111111111''\<rparr>\<rparr>"
  let ?C = "\<lparr>to_dict = [(''project_id'', ''p1'')], get_auth_plugin = AuthPlugin ''token''\<rparr>"
  let ?cl = "Client [(''session'', PSession (Session ''s'')), (''auth'', PAuth (AuthPlugin ''token'')),
                     (''region_name'', PStr None), (''retries'', PInt 3)]"
  let ?E1 = "\<lparr>base_Store_init = \<lambda>cnf. Inr (),
              load_from_conf_options = \<lambda>cnf. Inr (Session ''s''),
      percent = \<lambda>t d. Inl (OtherError ''unused''),
      volumes_get = \<lambda>cl v. Inl (OtherError ''connection refused'')\<rparr>"
  let ?E2 = "\<lparr>base_Store_init = \<lambda>cnf. Inr (),
              load_from_conf_options = \<lambda>cnf. Inr (Session ''s''),
      percent = \<lambda>t d. Inl (OtherError ''unused''),
      volumes_get = \<lambda>cl v. Inl (EndpointNotFound ''no endpoint'')\<rparr>"
  have c1: "get_cinderclient ?E1 ?S (Some ?C) = Inr ?cl"
    by (simp add: get_cinderclient_def default_conf_def)
  have c2: "get_cinderclient ?E2 ?S (Some ?C) = Inr ?cl"
    by (simp add: get_cinderclient_def default_conf_def)
  have r1: "volumes_get ?E1 ?cl (volume_id (store_location ?L))
              = Inl (OtherError ''connection refused'')"
    by simp
  have r2: "volumes_get ?E2 ?cl (volume_id (store_location ?L))
              = Inl (EndpointNotFound ''no endpoint'')"
    by simp
  from get_size_remote_failure [OF c1 r1] get_size_remote_failure [OF c2 r2]
  show ?thesis by simp
qed

text \<open>
  C8. When the client is built and the remote call returns a volume of size \<open>n\<close>
  gigabytes, \<^verbatim>\<open>get_size\<close> returns \<open>n * 1024 ^ 3\<close> and logs nothing; a size of 5 gives
  5368709120.
\<close>

theorem get_size_bytes:
  assumes "get_cinderclient env self (Some c) = Inr cl"
    and "volumes_get env cl (volume_id (store_location location)) = Inr v"
  shows "get_size env self location (Some c) = ([], Inr (volume_size v * 1024 ^ 3))
       \<and> (volume_size v = 5 \<longrightarrow> get_size env self location (Some c) = ([], Inr 5368709120))"
  using assms by (simp add: get_size_of_body get_size_body_Some)

theorem get_size_bytes_witness:
  "get_size
     \<lparr>base_Store_init = \<lambda>cnf. Inr (),
      load_from_conf_options = \<lambda>cnf. Inr (Session ''s''),
      percent = \<lambda>t d. Inl (OtherError ''unused''),
      volumes_get = \<lambda>cl v.
        if v = Some ''2aa1d1c2-5f0c-4e8f-8e0d-111111111111'' then Inr \<lparr>volume_size = 5\<rparr>
        else Inl (CinderNotFound ''no such volume'')\<rparr>
     \<lparr>conf = default_conf, session = Session ''s'',
      service_type = ''volume'', service_name = ''cinder'', endpoint_type = ''publicURL''\<rparr>
     \<lparr>store_location =
        \<lparr>specs = Map.empty, scheme = ''cinder'',
         volume_id = Some ''2aa1d1c2-5f0c-4e8f-8e0d-111111111111''\<rparr>\<rparr>
     (Some \<lparr>to_dict = [(''project_id'', ''p1'')], get_auth_plugin = AuthPlugin ''token''\<rparr>)
   = ([], Inr 5368709120)"
proof -
  let ?S = "\<lparr>conf = default_conf, session = Session ''s'',
      service_type = ''volume'', service_name = ''cinder'', endpoint_type = ''publicURL''\<rparr>"
  let ?L = "\<lparr>store_location =
        \<lparr>specs = Map.empty, scheme = ''cinder'',
         volume_id = Some ''2aa1d1c2-5f0c-4e8f-8e0d-111111111111''\<rparr>\<rparr>"
  let ?C = "\<lparr>to_dict = [(''project_id'', ''p1'')], get_auth_plugin = AuthPlugin ''token''\<rparr>"
  let ?cl = "Client [(''session'', PSession (Session ''s'')), (''auth'', PAuth (AuthPlugin ''token'')),
                     (''region_name'', PStr None), (''retries'', PInt 3)]"
  let ?E = "\<lparr>base_Store_init = \<lambda>cnf. Inr (),
             load_from_conf_options = \<lambda>cnf. Inr (Session ''s''),
      percent = \<lambda>t d. Inl (OtherError ''unused''),
      volumes_get = \<lambda>cl v.
        if v = Some ''2aa1d1c2-5f0c-4e8f-8e0d-111111111111'' then Inr \<lparr>volume_size = 5\<rparr>
        else Inl (CinderNotFound ''no such volume'')\<rparr>"
  have c: "get_cinderclient ?E ?S (Some ?C) = Inr ?cl"
    by (simp add: get_cinderclient_def default_conf_def)
  have r: "volumes_get ?E ?cl (volume_id (store_location ?L)) = Inr \<lparr>volume_size = 5\<rparr>"
    by simp
  from get_size_bytes [OF c r] show ?thesis by simp
qed

end
